theory Spec2Isabelle
  imports Main
begin

section \<open>Strings\<close>

text \<open>
  A Go string is a sequence of bytes, and so is a \<open>string\<close> here: \<open>length\<close> is Go's
  \<open>len\<close>, \<open>take\<close> and \<open>drop\<close> are its slices. The functions of the Go standard
  library that the viewer calls are written out below for the bytes of ASCII text.
  Go's \<open>strings.ToUpper\<close>, \<open>strings.ToLower\<close>, \<open>strings.TrimSpace\<close> and
  \<open>strings.Fields\<close> also consult the Unicode tables for bytes from 0x80 on; those
  tables belong to the Go runtime, not to this repository, and such bytes are left
  as they are here.
\<close>

definition asciiSpace :: "char \<Rightarrow> bool" where
  "asciiSpace c = (c = CHR 0x09 \<or> c = CHR 0x0A \<or> c = CHR 0x0B \<or> c = CHR 0x0C
     \<or> c = CHR 0x0D \<or> c = CHR 0x20)"

definition isDigit :: "char \<Rightarrow> bool" where
  "isDigit c = (let n = (of_char c :: nat) in 48 \<le> n \<and> n \<le> 57)"

definition isUpper :: "char \<Rightarrow> bool" where
  "isUpper c = (let n = (of_char c :: nat) in 65 \<le> n \<and> n \<le> 90)"

definition isLower :: "char \<Rightarrow> bool" where
  "isLower c = (let n = (of_char c :: nat) in 97 \<le> n \<and> n \<le> 122)"

definition upperChar :: "char \<Rightarrow> char" where
  "upperChar c = (if isLower c then char_of ((of_char c :: nat) - 32) else c)"

definition lowerChar :: "char \<Rightarrow> char" where
  "lowerChar c = (if isUpper c then char_of ((of_char c :: nat) + 32) else c)"

definition ToUpper :: "string \<Rightarrow> string" where
  "ToUpper s = map upperChar s"

definition ToLower :: "string \<Rightarrow> string" where
  "ToLower s = map lowerChar s"

definition TrimSpace :: "string \<Rightarrow> string" where
  "TrimSpace s = rev (dropWhile asciiSpace (rev (dropWhile asciiSpace s)))"

fun HasPrefix :: "string \<Rightarrow> string \<Rightarrow> bool" where
  "HasPrefix s [] = True"
| "HasPrefix [] (p # ps) = False"
| "HasPrefix (c # cs) (p # ps) = (c = p \<and> HasPrefix cs ps)"

fun Contains :: "string \<Rightarrow> string \<Rightarrow> bool" where
  "Contains [] sub = (sub = [])"
| "Contains (c # cs) sub = (HasPrefix (c # cs) sub \<or> Contains cs sub)"

text \<open>\<open>strings.Index(s, "{")\<close>: the position of the first such byte, if any.\<close>

fun IndexByte :: "string \<Rightarrow> char \<Rightarrow> nat option" where
  "IndexByte [] b = None"
| "IndexByte (c # cs) b = (if c = b then Some 0 else map_option Suc (IndexByte cs b))"

text \<open>\<open>strings.Replace(s, old, new, 1)\<close>: the first occurrence only.\<close>

fun ReplaceFirst :: "string \<Rightarrow> string \<Rightarrow> string \<Rightarrow> string" where
  "ReplaceFirst [] old new = (if old = [] then new else [])"
| "ReplaceFirst (c # cs) old new =
     (if HasPrefix (c # cs) old then new @ drop (length old) (c # cs)
      else c # ReplaceFirst cs old new)"

section \<open>Regular expressions\<close>

text \<open>
  The classifier's patterns use a small part of Go's \<open>regexp\<close> syntax: single
  characters and the classes \<open>\d\<close>, \<open>\w\<close>, \<open>\s\<close> and \<open>.\<close>, greedy counted
  repetition of a class, concatenation, capturing groups, greedy optional parts,
  alternation and the anchors. Go's \<open>FindStringSubmatch\<close> returns the match a
  backtracking search finds first at the leftmost position where one exists;
  \<open>rmatch\<close> is that search, over a stack of what is left to match. It reads the
  line byte by byte. The patterns name ASCII characters only, and every \<open>.+\<close> in
  them runs to the end of the line, so the groups are the same as when the line is
  read as UTF-8: \<open>.\<close> is any byte but the newline, \<open>^\<close> is the start of the
  text and \<open>$\<close> its end.
\<close>

datatype cclass = CDigit | CWord | CSpace | CAny | CLit char

fun in_class :: "cclass \<Rightarrow> char \<Rightarrow> bool" where
  "in_class CDigit c = isDigit c"
| "in_class CWord c = (isDigit c \<or> isUpper c \<or> isLower c \<or> c = CHR ''_'')"
| "in_class CSpace c = (c = CHR 0x09 \<or> c = CHR 0x0A \<or> c = CHR 0x0C \<or> c = CHR 0x0D \<or> c = CHR 0x20)"
| "in_class CAny c = (c \<noteq> CHR 0x0A)"
| "in_class (CLit l) c = (c = l)"

datatype regex =
    Atom cclass
  | Rep cclass nat "nat option"
  | Cat regex regex
  | Eps
  | Grp nat regex
  | Opt regex
  | Alt regex regex
  | Bol
  | Eol

datatype frame = R regex | Close nat string

fun rsize :: "regex \<Rightarrow> nat" where
  "rsize (Cat a b) = Suc (rsize a + rsize b)"
| "rsize (Grp n r) = Suc (Suc (rsize r))"
| "rsize (Opt r) = Suc (rsize r)"
| "rsize (Alt a b) = Suc (rsize a + rsize b)"
| "rsize r = 1"

fun fsize :: "frame \<Rightarrow> nat" where
  "fsize (R r) = rsize r"
| "fsize (Close n s) = 1"

type_synonym captures = "nat \<Rightarrow> string"

fun less_one :: "nat option \<Rightarrow> nat option" where
  "less_one None = None"
| "less_one (Some h) = Some (h - 1)"

function rmatch :: "string \<Rightarrow> frame list \<Rightarrow> string \<Rightarrow> captures \<Rightarrow> captures option" where
  "rmatch inp [] s caps = Some caps"
| "rmatch inp (Close n s0 # k) s caps =
     rmatch inp k s (caps(n := take (length s0 - length s) s0))"
| "rmatch inp (R Eps # k) s caps = rmatch inp k s caps"
| "rmatch inp (R Bol # k) s caps =
     (if length s = length inp then rmatch inp k s caps else None)"
| "rmatch inp (R Eol # k) s caps = (if s = [] then rmatch inp k s caps else None)"
| "rmatch inp (R (Atom c) # k) s caps =
     (case s of [] \<Rightarrow> None
      | x # xs \<Rightarrow> if in_class c x then rmatch inp k xs caps else None)"
| "rmatch inp (R (Cat a b) # k) s caps = rmatch inp (R a # R b # k) s caps"
| "rmatch inp (R (Grp n r) # k) s caps = rmatch inp (R r # Close n s # k) s caps"
| "rmatch inp (R (Opt r) # k) s caps =
     (case rmatch inp (R r # k) s caps of
        Some c \<Rightarrow> Some c
      | None \<Rightarrow> rmatch inp k s caps)"
| "rmatch inp (R (Alt a b) # k) s caps =
     (case rmatch inp (R a # k) s caps of
        Some c \<Rightarrow> Some c
      | None \<Rightarrow> rmatch inp (R b # k) s caps)"
| "rmatch inp (R (Rep c lo hi) # k) s caps =
     (if lo > 0 then
        (case s of [] \<Rightarrow> None
         | x # xs \<Rightarrow>
             if in_class c x then rmatch inp (R (Rep c (lo - 1) (less_one hi)) # k) xs caps
             else None)
      else
        (case s of [] \<Rightarrow> rmatch inp k s caps
         | x # xs \<Rightarrow>
             if in_class c x \<and> hi \<noteq> Some 0
             then (case rmatch inp (R (Rep c 0 (less_one hi)) # k) xs caps of
                     Some r \<Rightarrow> Some r
                   | None \<Rightarrow> rmatch inp k s caps)
             else rmatch inp k s caps))"
  by pat_completeness auto
termination
  by (relation "measures [\<lambda>(inp, fs, s, caps). sum_list (map fsize fs),
                          \<lambda>(inp, fs, s, caps). length s]") auto

declare rmatch.simps [simp del]

definition no_captures :: captures where
  "no_captures = (\<lambda>n. [])"

text \<open>
  \<open>FindStringSubmatch\<close>: the search is tried at every start position from the left;
  group 0 is the whole match, a group that took no part in the match is the empty
  string, and \<open>None\<close> is Go's \<open>nil\<close> result.
\<close>

fun find_from :: "regex \<Rightarrow> string \<Rightarrow> string \<Rightarrow> captures option" where
  "find_from re inp [] = rmatch inp [R (Grp 0 re)] [] no_captures"
| "find_from re inp (c # cs) =
     (case rmatch inp [R (Grp 0 re)] (c # cs) no_captures of
        Some m \<Rightarrow> Some m
      | None \<Rightarrow> find_from re inp cs)"

definition FindStringSubmatch :: "regex \<Rightarrow> string \<Rightarrow> captures option" where
  "FindStringSubmatch re s = find_from re s s"


section \<open>Log records and the line classifier\<close>

record LogEntry =
  Time :: string
  Level :: string
  Message :: string
  JobID :: string
  Error :: string
  Raw :: string

subsection \<open>The patterns of \<open>parseUniversalLog\<close>\<close>

definition seq :: "regex list \<Rightarrow> regex" where
  "seq rs = foldr Cat rs Eps"

definition lit :: "char \<Rightarrow> regex" where
  "lit c = Atom (CLit c)"

definition lits :: "string \<Rightarrow> regex" where
  "lits s = seq (map lit s)"

definition digits :: "nat \<Rightarrow> regex" where
  "digits n = Rep CDigit n (Some n)"

definition many1 :: "cclass \<Rightarrow> regex" where
  "many1 c = Rep c 1 None"

definition many0 :: "cclass \<Rightarrow> regex" where
  "many0 c = Rep c 0 None"

text \<open>\<^verbatim>\<open>\d{4}-\d{2}-\d{2}T\d{2}:\d{2}:\d{2}(?:\.\d+)?Z\<close>\<close>

definition dockerStamp :: regex where
  "dockerStamp = seq [digits 4, lit CHR ''-'', digits 2, lit CHR ''-'', digits 2, lit CHR ''T'',
     digits 2, lit CHR '':'', digits 2, lit CHR '':'', digits 2,
     Opt (seq [lit CHR ''.'', many1 CDigit]), lit CHR ''Z'']"

text \<open>\<^verbatim>\<open>\d{4}-\d{2}-\d{2} \d{2}:\d{2}:\d{2}\<close>\<close>

definition dateTime :: regex where
  "dateTime = seq [digits 4, lit CHR ''-'', digits 2, lit CHR ''-'', digits 2, lit CHR '' '',
     digits 2, lit CHR '':'', digits 2, lit CHR '':'', digits 2]"

text \<open>\<^verbatim>\<open>\d{2}:\d{2}:\d{2}\<close>\<close>

definition clock :: regex where
  "clock = seq [digits 2, lit CHR '':'', digits 2, lit CHR '':'', digits 2]"

text \<open>
  The eleven patterns, in the order of the source. The level is left as the pattern
  captured it; \<open>normalizeLevel\<close> is applied by the view, not by the classifier.
\<close>

text \<open>\<^verbatim>\<open>^(dockerStamp)\s+(dateTime\.\d{3}) GMT \[(\d+)\] (\w+):\s*(.+)$\<close>\<close>

definition pat1 :: regex where
  "pat1 = seq [Bol, Grp 1 dockerStamp, many1 CSpace,
     Grp 2 (seq [dateTime, lit CHR ''.'', digits 3]), lits '' GMT ['',
     Grp 3 (many1 CDigit), lits ''] '', Grp 4 (many1 CWord), lit CHR '':'', many0 CSpace,
     Grp 5 (many1 CAny), Eol]"

definition parse1 :: "captures \<Rightarrow> LogEntry" where
  "parse1 m = \<lparr>Time = m 1, Level = m 4, Message = m 5, JobID = m 3, Error = [], Raw = []\<rparr>"

text \<open>\<^verbatim>\<open>^(dockerStamp)\s+(dateTime\.\d{3}) GMT \[(\d+)\] (STATEMENT):\s*(.+)$\<close>\<close>

definition pat2 :: regex where
  "pat2 = seq [Bol, Grp 1 dockerStamp, many1 CSpace,
     Grp 2 (seq [dateTime, lit CHR ''.'', digits 3]), lits '' GMT ['',
     Grp 3 (many1 CDigit), lits ''] '', Grp 4 (lits ''STATEMENT''), lit CHR '':'', many0 CSpace,
     Grp 5 (many1 CAny), Eol]"

definition parse2 :: "captures \<Rightarrow> LogEntry" where
  "parse2 m = \<lparr>Time = m 1, Level = ''INFO'', Message = ''SQL: '' @ m 5, JobID = m 3,
     Error = [], Raw = []\<rparr>"

text \<open>\<^verbatim>\<open>^(dateTime\.\d{3}) GMT \[(\d+)\] (\w+):\s*(.+)$\<close>\<close>

definition pat3 :: regex where
  "pat3 = seq [Bol, Grp 1 (seq [dateTime, lit CHR ''.'', digits 3]), lits '' GMT ['',
     Grp 2 (many1 CDigit), lits ''] '', Grp 3 (many1 CWord), lit CHR '':'', many0 CSpace,
     Grp 4 (many1 CAny), Eol]"

definition parse3 :: "captures \<Rightarrow> LogEntry" where
  "parse3 m = \<lparr>Time = m 1, Level = m 3, Message = m 4, JobID = m 2, Error = [], Raw = []\<rparr>"

text \<open>\<^verbatim>\<open>^(dockerStamp)\s+(\w+)\s+(clock\.\d{2})\s+(\w+)\s+(.+)$\<close>\<close>

definition pat4 :: regex where
  "pat4 = seq [Bol, Grp 1 dockerStamp, many1 CSpace, Grp 2 (many1 CWord), many1 CSpace,
     Grp 3 (seq [clock, lit CHR ''.'', digits 2]), many1 CSpace, Grp 4 (many1 CWord),
     many1 CSpace, Grp 5 (many1 CAny), Eol]"

definition parse4 :: "captures \<Rightarrow> LogEntry" where
  "parse4 m = \<lparr>Time = m 1, Level = m 4, Message = m 5, JobID = m 2, Error = [], Raw = []\<rparr>"

text \<open>\<^verbatim>\<open>^(\w+)\s+(clock\.\d{2})\s+(\w+)\s+(.+)$\<close>\<close>

definition pat5 :: regex where
  "pat5 = seq [Bol, Grp 1 (many1 CWord), many1 CSpace,
     Grp 2 (seq [clock, lit CHR ''.'', digits 2]), many1 CSpace, Grp 3 (many1 CWord),
     many1 CSpace, Grp 4 (many1 CAny), Eol]"

definition parse5 :: "captures \<Rightarrow> LogEntry" where
  "parse5 m = \<lparr>Time = m 2, Level = m 3, Message = m 4, JobID = m 1, Error = [], Raw = []\<rparr>"

text \<open>\<^verbatim>\<open>^(dockerStamp)$\<close>\<close>

definition pat6 :: regex where
  "pat6 = seq [Bol, Grp 1 dockerStamp, Eol]"

definition parse6 :: "captures \<Rightarrow> LogEntry" where
  "parse6 m = \<lparr>Time = m 1, Level = ''INFO'', Message = [], JobID = [], Error = [], Raw = []\<rparr>"

text \<open>\<^verbatim>\<open>^(dockerStamp)?\s*\[(\w+)\]\s*(.+)$\<close>\<close>

definition pat7 :: regex where
  "pat7 = seq [Bol, Opt (Grp 1 dockerStamp), many0 CSpace, lit CHR ''['', Grp 2 (many1 CWord),
     lit CHR '']'', many0 CSpace, Grp 3 (many1 CAny), Eol]"

definition parse7 :: "captures \<Rightarrow> LogEntry" where
  "parse7 m = \<lparr>Time = m 1, Level = m 2, Message = m 3, JobID = [], Error = [], Raw = []\<rparr>"

text \<open>\<^verbatim>\<open>^(clock(?:\.\d{3})?)\s+\[(\w+)\]\s+(.+)$\<close>\<close>

definition pat8 :: regex where
  "pat8 = seq [Bol, Grp 1 (seq [clock, Opt (seq [lit CHR ''.'', digits 3])]), many1 CSpace,
     lit CHR ''['', Grp 2 (many1 CWord), lit CHR '']'', many1 CSpace, Grp 3 (many1 CAny), Eol]"

definition parse8 :: "captures \<Rightarrow> LogEntry" where
  "parse8 m = \<lparr>Time = m 1, Level = m 2, Message = m 3, JobID = [], Error = [], Raw = []\<rparr>"

text \<open>
  The level of a free-text message, by keyword. The source writes this scan out five
  times; the one after a Docker timestamp and the last one (nothing matched) also look
  for \<open>exception\<close>, the other three do not.
\<close>

definition inferLevel :: "bool \<Rightarrow> string \<Rightarrow> string" where
  "inferLevel withException message =
     (let messageLower = ToLower message in
      if Contains messageLower ''error'' \<or> Contains messageLower ''failed''
         \<or> (withException \<and> Contains messageLower ''exception'') then ''ERROR''
      else if Contains messageLower ''warn'' then ''WARN''
      else if Contains messageLower ''debug'' then ''DEBUG''
      else ''INFO'')"

text \<open>\<^verbatim>\<open>^(dockerStamp)\s+(.+)$\<close>\<close>

definition pat9 :: regex where
  "pat9 = seq [Bol, Grp 1 dockerStamp, many1 CSpace, Grp 2 (many1 CAny), Eol]"

definition parse9 :: "captures \<Rightarrow> LogEntry" where
  "parse9 m = \<lparr>Time = m 1, Level = inferLevel True (m 2), Message = m 2, JobID = [],
     Error = [], Raw = []\<rparr>"

text \<open>\<^verbatim>\<open>^(dateTime)\s+(.+)$\<close>\<close>

definition pat10 :: regex where
  "pat10 = seq [Bol, Grp 1 dateTime, many1 CSpace, Grp 2 (many1 CAny), Eol]"

definition parse10 :: "captures \<Rightarrow> LogEntry" where
  "parse10 m = \<lparr>Time = m 1, Level = inferLevel False (m 2), Message = m 2, JobID = [],
     Error = [], Raw = []\<rparr>"

text \<open>\<^verbatim>\<open>^(clock(?:\.\d{2,3})?)\s+(.+)$\<close>\<close>

definition pat11 :: regex where
  "pat11 = seq [Bol, Grp 1 (seq [clock, Opt (seq [lit CHR ''.'', Rep CDigit 2 (Some 3)])]),
     many1 CSpace, Grp 2 (many1 CAny), Eol]"

definition parse11 :: "captures \<Rightarrow> LogEntry" where
  "parse11 m = \<lparr>Time = m 1, Level = inferLevel False (m 2), Message = m 2, JobID = [],
     Error = [], Raw = []\<rparr>"

definition patterns :: "(regex \<times> (captures \<Rightarrow> LogEntry)) list" where
  "patterns = [(pat1, parse1), (pat2, parse2), (pat3, parse3), (pat4, parse4),
     (pat5, parse5), (pat6, parse6), (pat7, parse7), (pat8, parse8), (pat9, parse9),
     (pat10, parse10), (pat11, parse11)]"

text \<open>\<^verbatim>\<open>(dockerStamp|dateTime(?:\.\d+)?|clock(?:\.\d+)?)\<close>, not anchored.\<close>

definition timePattern :: regex where
  "timePattern = Grp 1 (Alt dockerStamp
     (Alt (seq [dateTime, Opt (seq [lit CHR ''.'', many1 CDigit])])
          (seq [clock, Opt (seq [lit CHR ''.'', many1 CDigit])])))"

text \<open>The loop over the patterns: the first one that matches the line governs.\<close>

fun firstMatch :: "(regex \<times> (captures \<Rightarrow> LogEntry)) list \<Rightarrow> string \<Rightarrow> LogEntry option" where
  "firstMatch [] line = None"
| "firstMatch ((re, parse) # ps) line =
     (case FindStringSubmatch re line of
        Some matches \<Rightarrow> Some (parse matches)
      | None \<Rightarrow> firstMatch ps line)"

definition parseUniversalLog :: "string \<Rightarrow> LogEntry" where
  "parseUniversalLog line0 =
     (let line = TrimSpace line0 in
      case firstMatch patterns line of
        Some entry \<Rightarrow> entry
      | None \<Rightarrow>
         (case FindStringSubmatch timePattern line of
            Some timeMatch \<Rightarrow>
              (let message = TrimSpace (ReplaceFirst line (timeMatch 1) []) in
               \<lparr>Time = timeMatch 1, Level = inferLevel False message, Message = message,
                JobID = [], Error = [], Raw = []\<rparr>)
          | None \<Rightarrow>
              \<lparr>Time = [], Level = inferLevel True line, Message = line,
               JobID = [], Error = [], Raw = []\<rparr>))"

subsection \<open>\<open>parseLogLine\<close>\<close>

text \<open>
  \<open>json.Unmarshal\<close> into a \<open>LogEntry\<close> is the Go standard library's decoder. It is a
  parameter of the model: \<open>unmarshal text\<close> is \<open>Some entry\<close> when the decoder returns
  no error, with the entry it filled in, and \<open>None\<close> when it returns an error.
\<close>

type_synonym decoder = "string \<Rightarrow> LogEntry option"

text \<open>
  The decoder that returns an error on every text. It stands for the decoder in closed
  statements about lines without a brace, on which \<open>parseLogLine\<close> calls none.
\<close>

definition noJSON :: decoder where
  "noJSON text = None"

definition stripDockerHeader :: "string \<Rightarrow> string" where
  "stripDockerHeader line =
     (if length line \<ge> 8 \<and> (hd line = CHR 0x01 \<or> hd line = CHR 0x02) then drop 8 line
      else line)"

definition parseLogLine :: "decoder \<Rightarrow> string \<Rightarrow> LogEntry" where
  "parseLogLine unmarshal line0 =
     (let line = TrimSpace (stripDockerHeader line0) in
      case IndexByte line CHR ''{'' of
        None \<Rightarrow> parseUniversalLog line
      | Some jsonStart \<Rightarrow>
         (let dockerTimestamp = (if jsonStart > 0 then TrimSpace (take jsonStart line) else []);
              jsonPart = drop jsonStart line
          in case unmarshal jsonPart of
               Some logEntry \<Rightarrow>
                 (if Time logEntry = [] \<and> dockerTimestamp \<noteq> []
                  then logEntry\<lparr>Time := dockerTimestamp\<rparr> else logEntry)
             | None \<Rightarrow> parseUniversalLog line))"


section \<open>Level canonicalization and the error filter\<close>


text \<open>
  The keywords of \<open>isErrorLog\<close>. Four of them are Russian words, written here as the
  bytes of their UTF-8 text, which is what the Go string literal holds.
\<close>

definition errorKeywords :: "string list" where
  "errorKeywords =
    [''error'', ''exception'', ''failed'', ''failure'', ''panic'', ''fatal'',
     [CHR 0xD0, CHR 0xBE, CHR 0xD1, CHR 0x88, CHR 0xD0, CHR 0xB8, CHR 0xD0, CHR 0xB1,
      CHR 0xD0, CHR 0xBA, CHR 0xD0, CHR 0xB0],
     [CHR 0xD0, CHR 0xB8, CHR 0xD1, CHR 0x81, CHR 0xD0, CHR 0xBA, CHR 0xD0, CHR 0xBB,
      CHR 0xD1, CHR 0x8E, CHR 0xD1, CHR 0x87, CHR 0xD0, CHR 0xB5, CHR 0xD0, CHR 0xBD,
      CHR 0xD0, CHR 0xB8, CHR 0xD0, CHR 0xB5],
     [CHR 0xD1, CHR 0x81, CHR 0xD0, CHR 0xB1, CHR 0xD0, CHR 0xBE, CHR 0xD0, CHR 0xB9],
     [CHR 0xD0, CHR 0xBA, CHR 0xD1, CHR 0x80, CHR 0xD0, CHR 0xB8, CHR 0xD1, CHR 0x82,
      CHR 0xD0, CHR 0xB8, CHR 0xD1, CHR 0x87, CHR 0xD0, CHR 0xB5, CHR 0xD1, CHR 0x81,
      CHR 0xD0, CHR 0xBA, CHR 0xD0, CHR 0xB0, CHR 0xD1, CHR 0x8F, CHR 0x20, CHR 0xD0,
      CHR 0xBE, CHR 0xD1, CHR 0x88, CHR 0xD0, CHR 0xB8, CHR 0xD0, CHR 0xB1, CHR 0xD0,
      CHR 0xBA, CHR 0xD0, CHR 0xB0],
     ''stack trace'', ''traceback'', ''crash'', ''segmentation fault'',
     ''timeout'', ''connection refused'', ''permission denied'',
     ''not found'', ''already exists'', ''invalid'', ''malformed'']"

definition isErrorLog :: "LogEntry \<Rightarrow> bool" where
  "isErrorLog entry =
     (if ToUpper (Level entry) = ''ERROR'' then True
      else if Error entry \<noteq> [] then True
      else if list_ex (Contains (ToLower (Message entry))) errorKeywords then True
      else if Raw entry \<noteq> [] \<and> list_ex (Contains (ToLower (Raw entry))) errorKeywords
        then True
      else False)"

section \<open>The view model\<close>

text \<open>
  Go's \<open>int\<close> has 64 bits on the platforms the tool is built for. The scroll offset
  and the sizes are integers here; the model is exact while they stay in that range.
  An \<open>error\<close> value of Go is kept as its message.
\<close>

record model =
  logEntries :: "LogEntry list"
  ready :: bool
  err :: "string option"
  containerID :: string
  width :: int
  height :: int
  wrapLines :: bool
  showErrorsOnly :: bool
  logCount :: int
  requestedTail :: int
  scrollOffset :: int

text \<open>
  \<open>initialModel\<close> asks the terminal for its size and falls back to 80 columns and 24
  rows; the answer of \<open>term.GetSize\<close> is the argument \<open>termSize\<close>.
\<close>

definition initialModel :: "string \<Rightarrow> (int \<times> int) option \<Rightarrow> model" where
  "initialModel cid termSize =
     (let (w, h) = (case termSize of Some wh \<Rightarrow> wh | None \<Rightarrow> (80, 24)) in
      \<lparr>logEntries = [], ready = False, err = None, containerID = cid, width = w,
       height = h, wrapLines = True, showErrorsOnly = False, logCount = 0,
       requestedTail = 0, scrollOffset = 0\<rparr>)"

datatype msg =
    WindowSizeMsg int int
  | KeyMsg string
  | LogMsg LogEntry
  | ErrorMsg string
  | InfoMsg string

datatype cmd = Quit

definition updateKey :: "model \<Rightarrow> string \<Rightarrow> model \<times> cmd option" where
  "updateKey m key =
     (if key = ''ctrl+c'' \<or> key = ''q'' then (m, Some Quit)
      else if key = ''w'' then (m\<lparr>wrapLines := \<not> wrapLines m\<rparr>, None)
      else if key = ''e'' then (m\<lparr>showErrorsOnly := \<not> showErrorsOnly m\<rparr>, None)
      else if key = ''up'' \<or> key = ''k'' then
        (if scrollOffset m > 0 then m\<lparr>scrollOffset := scrollOffset m - 1\<rparr> else m, None)
      else if key = ''down'' \<or> key = ''j'' then (m\<lparr>scrollOffset := scrollOffset m + 1\<rparr>, None)
      else if key = ''home'' \<or> key = ''g'' then (m\<lparr>scrollOffset := 0\<rparr>, None)
      else if key = ''end'' \<or> key = ''G'' then
        (m\<lparr>scrollOffset := int (length (logEntries m)) - height m + 5\<rparr>, None)
      else if key = ''pageup'' then
        (if scrollOffset m > height m then m\<lparr>scrollOffset := scrollOffset m - height m\<rparr>
         else m\<lparr>scrollOffset := 0\<rparr>, None)
      else if key = ''pagedown'' then (m\<lparr>scrollOffset := scrollOffset m + height m\<rparr>, None)
      else (m, None))"

fun Update :: "model \<Rightarrow> msg \<Rightarrow> model \<times> cmd option" where
  "Update m (WindowSizeMsg w h) = (m\<lparr>width := w, height := h\<rparr>, None)"
| "Update m (KeyMsg key) = updateKey m key"
| "Update m (LogMsg v) =
     (let m1 = m\<lparr>ready := True\<rparr>;
          m2 = m1\<lparr>logEntries := logEntries m1 @ [v], logCount := logCount m1 + 1\<rparr>
      in (if int (length (logEntries m2)) > height m2 - 3
          then m2\<lparr>scrollOffset := int (length (logEntries m2)) - (height m2 - 3)\<rparr>
          else m2, None))"
| "Update m (ErrorMsg e) = (m\<lparr>err := Some e, ready := True\<rparr>, None)"
| "Update m (InfoMsg i) = (m, None)"

text \<open>The model after a sequence of messages, as the event loop feeds them to \<open>Update\<close>.\<close>

fun run :: "model \<Rightarrow> msg list \<Rightarrow> model" where
  "run m [] = m"
| "run m (x # xs) = run (fst (Update m x)) xs"

subsection \<open>The scroll window of \<open>View\<close>\<close>

text \<open>
  \<open>View\<close> returns an error or a loading screen while \<open>err\<close> is set or \<open>ready\<close> is
  not, and slices 12 bytes off the container id for the header. It then filters the
  records, computes \<open>start\<close> and \<open>end\<close> and ranges over
  \<open>visibleEntries[start:end]\<close>. That part is modelled: \<open>viewRange\<close> are the two
  indices, \<open>viewSlice\<close> is the slice expression, which panics unless
  \<open>0 \<le> start \<le> end \<le> cap(visibleEntries)\<close>. The capacity is at least the length,
  and \<open>end\<close> has been clamped to the length before, so the last check is written on
  the length. The formatting of the selected records (styles, clock time) is not
  modelled.
\<close>

datatype error = SliceBoundsOutOfRange

definition visibleEntries :: "model \<Rightarrow> LogEntry list" where
  "visibleEntries m = filter (\<lambda>entry. \<not> (showErrorsOnly m \<and> \<not> isErrorLog entry)) (logEntries m)"

definition viewRange :: "model \<Rightarrow> int \<times> int" where
  "viewRange m =
     (let n = int (length (visibleEntries m));
          start0 = scrollOffset m;
          availableHeight = height m - 3;
          end0 = start0 + availableHeight;
          end1 = (if end0 > n then n else end0);
          start1 = (if start0 \<ge> n then (if n - 1 < 0 then 0 else n - 1) else start0)
      in (start1, end1))"

definition sliceEntries :: "'a list \<Rightarrow> int \<Rightarrow> int \<Rightarrow> error + 'a list" where
  "sliceEntries xs lo hi =
     (if 0 \<le> lo \<and> lo \<le> hi \<and> hi \<le> int (length xs)
      then Inr (take (nat (hi - lo)) (drop (nat lo) xs))
      else Inl SliceBoundsOutOfRange)"

definition viewSlice :: "model \<Rightarrow> error + LogEntry list" where
  "viewSlice m = (let (start1, end1) = viewRange m in sliceEntries (visibleEntries m) start1 end1)"

text \<open>\<open>View\<close> gets as far as the slice when none of its early exits is taken.\<close>

definition reachesSlice :: "model \<Rightarrow> bool" where
  "reachesSlice m = (err m = None \<and> ready m \<and> length (containerID m) \<ge> 12)"


section \<open>Word wrapping\<close>



text \<open>\<open>strings.Join(parts, " ")\<close>.\<close>

fun JoinSp :: "string list \<Rightarrow> string" where
  "JoinSp [] = []"
| "JoinSp [x] = x"
| "JoinSp (x # y # ys) = x @ '' '' @ JoinSp (y # ys)"





section \<open>The stream pump\<close>

text \<open>
  \<open>streamLogs\<close> talks to the Docker daemon and to the program \<open>p\<close>. What the daemon
  answers is the \<open>source\<close>: whether creating the client, inspecting the container and
  opening the log stream fail, the lines \<open>scanner.Scan\<close> delivers before it returns
  false, what \<open>scanner.Err\<close> returns then, and at which rounds of the loop the
  context is seen as done. What the pump does is the list of its effects in order:
  messages sent to the program and text printed.
\<close>

record source =
  clientErr :: "string option"
  inspectErr :: "string option"
  logsErr :: "string option"
  scanned :: "string list"
  scanErr :: "string option"
  ctxDone :: "nat \<Rightarrow> bool"

datatype effect = Send msg | Print string

definition digitChar :: "nat \<Rightarrow> char" where
  "digitChar d = char_of (48 + d)"

function showNat :: "nat \<Rightarrow> string" where
  "showNat n = (if n < 10 then [digitChar n] else showNat (n div 10) @ [digitChar (n mod 10)])"
  by pat_completeness auto
termination
  by (relation "measure id") auto

declare showNat.simps [simp del]

text \<open>
  The scan loop from round \<open>i\<close> on: \<open>Inl\<close> when the context was done (the function
  returns at once), \<open>Inr\<close> with the line count when the scanner stopped.
\<close>

fun scanLoop :: "decoder \<Rightarrow> (nat \<Rightarrow> bool) \<Rightarrow> nat \<Rightarrow> string list \<Rightarrow> effect list \<times> (unit + nat)" where
  "scanLoop unmarshal dn i [] = ([], Inr i)"
| "scanLoop unmarshal dn i (line # rest) =
     (if dn i then ([], Inl ())
      else (let (effs, r) = scanLoop unmarshal dn (Suc i) rest
            in (Send (LogMsg (parseLogLine unmarshal line)) # effs, r)))"

text \<open>
  The \<open>Tail\<close> option of the request to the daemon: the number of lines asked for, or
  all of them. It shapes what the daemon answers, which is the \<open>source\<close> here.
\<close>

definition tailStr :: "int \<Rightarrow> string" where
  "tailStr tail = (if tail > 0 then showNat (nat tail) else ''all'')"

definition streamLogs :: "decoder \<Rightarrow> source \<Rightarrow> effect list" where
  "streamLogs unmarshal src =
     (case clientErr src of
        Some e \<Rightarrow> [Send (ErrorMsg (''failed to create Docker client: '' @ e))]
      | None \<Rightarrow>
     (case inspectErr src of
        Some e \<Rightarrow> [Send (ErrorMsg (''container not found: '' @ e))]
      | None \<Rightarrow>
     (case logsErr src of
        Some e \<Rightarrow> [Send (ErrorMsg (''failed to get container logs: '' @ e))]
      | None \<Rightarrow>
     (case scanLoop unmarshal (ctxDone src) 0 (scanned src) of
        (effs, Inl u) \<Rightarrow> effs
      | (effs, Inr lineCount) \<Rightarrow>
          effs @
          [Print (''DEBUG: Read '' @ showNat lineCount @ '' lines from Docker API'' @ [CHR 0x0A]),
           Send (InfoMsg (''Read '' @ showNat lineCount @ '' lines from Docker API''))] @
          (case scanErr src of
             Some e \<Rightarrow> [Send (ErrorMsg (''error reading logs: '' @ e))]
           | None \<Rightarrow> [])))))"


section \<open>Definitions for stating the claims\<close>

text \<open>The record the classifier makes of a plain line of text.\<close>

definition infoEntry :: "string \<Rightarrow> LogEntry" where
  "infoEntry text = \<lparr>Time = [], Level = ''INFO'', Message = text, JobID = [], Error = [], Raw = []\<rparr>"

text \<open>
  The scroll offset the specification gives for the keys \<open>end\<close> and \<open>G\<close>, in its
  words: the greater of 0 and the number of visible records less \<open>height - 3 + 5\<close>.
\<close>

definition endOffsetSpec :: "model \<Rightarrow> int" where
  "endOffsetSpec m = max 0 (int (length (visibleEntries m)) - (height m - 3 + 5))"



text \<open>The kinds of effect of the pump.\<close>

fun isErrorSend :: "effect \<Rightarrow> bool" where
  "isErrorSend (Send (ErrorMsg e)) = True"
| "isErrorSend x = False"

fun isLogSend :: "effect \<Rightarrow> bool" where
  "isLogSend (Send (LogMsg v)) = True"
| "isLogSend x = False"

text \<open>A context that is never done.\<close>

definition never :: "nat \<Rightarrow> bool" where
  "never i = False"





section \<open>Evaluation\<close>

lemmas regex_defs = rmatch.simps seq_def lit_def lits_def digits_def many1_def many0_def
  dockerStamp_def dateTime_def clock_def FindStringSubmatch_def no_captures_def isDigit_def
  isUpper_def isLower_def

lemmas pattern_defs = patterns_def pat1_def pat2_def pat3_def pat4_def pat5_def pat6_def
  pat7_def pat8_def pat9_def pat10_def pat11_def timePattern_def parse1_def parse2_def
  parse3_def parse4_def parse5_def parse6_def parse7_def parse8_def parse9_def parse10_def
  parse11_def

lemmas char_eval = char_of_def bit_0

lemmas classifier_defs = parseLogLine_def parseUniversalLog_def stripDockerHeader_def
  TrimSpace_def asciiSpace_def inferLevel_def ToLower_def lowerChar_def Let_def char_eval

lemmas filter_defs = isErrorLog_def errorKeywords_def ToUpper_def ToLower_def upperChar_def
  lowerChar_def isLower_def isUpper_def char_eval

lemmas view_defs = initialModel_def updateKey_def visibleEntries_def viewRange_def
  sliceEntries_def viewSlice_def reachesSlice_def infoEntry_def Let_def

section \<open>The classifier on the examples of the specification\<close>

text \<open>
  C10: the classifier maps the PostgreSQL line with a Docker timestamp to the record
  with that timestamp, level ERROR, jobID 100 and the text after the level as message.
  The line has no brace, so the result is the same for every decoder.
\<close>

theorem parseLogLine_postgres_example:
  "parseLogLine unmarshal
     ''2025-07-19T00:26:54.972365013Z 2025-07-19 00:26:54.972 GMT [100] ERROR: relation \"mat_object\" does not exist''
   = \<lparr>Time = ''2025-07-19T00:26:54.972365013Z'', Level = ''ERROR'',
      Message = ''relation \"mat_object\" does not exist'', JobID = ''100'',
      Error = [], Raw = []\<rparr>"
  by (simp add: classifier_defs pattern_defs regex_defs)

text \<open>
  C5 as stated fails: for the line \<open>something bad happened, connection refused\<close> the
  level the classifier returns is not ERROR.
\<close>

theorem connection_refused_not_ERROR:
  "Level (parseLogLine noJSON ''something bad happened, connection refused'') \<noteq> ''ERROR''"
  by (simp add: classifier_defs pattern_defs regex_defs)

text \<open>
  C5, amended: for that line the classifier returns level INFO, since its keyword scan
  looks for error, failed, exception, warn and debug only, and the whole line as the
  message. The words \<open>connection refused\<close> are a keyword of the error filter: the
  record passes \<open>isErrorLog\<close>.
\<close>

theorem connection_refused_is_INFO:
  "parseLogLine unmarshal ''something bad happened, connection refused''
     = \<lparr>Time = [], Level = ''INFO'', Message = ''something bad happened, connection refused'',
        JobID = [], Error = [], Raw = []\<rparr>
   \<and> isErrorLog (parseLogLine unmarshal ''something bad happened, connection refused'')"
proof -
  have classified: "parseLogLine unmarshal ''something bad happened, connection refused''
     = \<lparr>Time = [], Level = ''INFO'', Message = ''something bad happened, connection refused'',
        JobID = [], Error = [], Raw = []\<rparr>"
    by (simp add: classifier_defs pattern_defs regex_defs)
  have "isErrorLog \<lparr>Time = [], Level = ''INFO'',
      Message = ''something bad happened, connection refused'',
      JobID = [], Error = [], Raw = []\<rparr>"
    by (simp add: filter_defs)
  with classified show ?thesis by simp
qed

section \<open>The error filter\<close>




section \<open>The scroll window\<close>

text \<open>
  C2 as stated fails: with 10 rows and 8 records, none filtered, the key \<open>end\<close> sets
  the scroll offset to 3, and the specification's formula gives 0.
\<close>

theorem end_key_differs_from_spec:
  "scrollOffset (run (initialModel ''0123456789ab'' (Some (80, 10)))
       (replicate 8 (LogMsg (infoEntry ''x'')) @ [KeyMsg ''end''])) = 3
   \<and> endOffsetSpec (run (initialModel ''0123456789ab'' (Some (80, 10)))
       (replicate 8 (LogMsg (infoEntry ''x'')) @ [KeyMsg ''end''])) = 0"
  by (simp add: view_defs endOffsetSpec_def numeral_eq_Suc)

text \<open>
  C2, amended: the keys \<open>end\<close> and \<open>G\<close> set the scroll offset to the number of
  records in the buffer, filtered or not, less the height plus 5, and change nothing
  else. This is stated where that number is not negative.
\<close>

theorem end_key_offset:
  assumes "key = ''end'' \<or> key = ''G''"
    and "0 \<le> int (length (logEntries m)) - height m + 5"
  shows "Update m (KeyMsg key)
    = (m\<lparr>scrollOffset := int (length (logEntries m)) - height m + 5\<rparr>, None)"
  using assms(1) by (elim disjE) (simp_all add: updateKey_def)

theorem end_key_offset_witness:
  "(''G'' = ''end'' \<or> ''G'' = ''G'')
   \<and> 0 \<le> int (length (logEntries (run (initialModel ''0123456789ab'' (Some (80, 4)))
         [LogMsg (infoEntry ''a''), LogMsg (infoEntry ''b'')])))
       - height (run (initialModel ''0123456789ab'' (Some (80, 4)))
         [LogMsg (infoEntry ''a''), LogMsg (infoEntry ''b'')]) + 5
   \<and> scrollOffset (fst (Update (run (initialModel ''0123456789ab'' (Some (80, 4)))
         [LogMsg (infoEntry ''a''), LogMsg (infoEntry ''b'')]) (KeyMsg ''G''))) = 3"
proof -
  have key: "''G'' = ''end'' \<or> ''G'' = ''G''" by simp
  have nonneg: "0 \<le> int (length (logEntries (run (initialModel ''0123456789ab'' (Some (80, 4)))
         [LogMsg (infoEntry ''a''), LogMsg (infoEntry ''b'')])))
       - height (run (initialModel ''0123456789ab'' (Some (80, 4)))
         [LogMsg (infoEntry ''a''), LogMsg (infoEntry ''b'')]) + 5"
    by (simp add: view_defs)
  show ?thesis
    using key nonneg end_key_offset [OF key nonneg]
    by (simp add: view_defs)
qed

text \<open>
  C3 fails on the code. From the initial model with the fallback size of 24 rows, one
  record arrives and the key \<open>end\<close> is pressed: the scroll offset is \<open>1 - 24 + 5\<close>,
  \<open>View\<close> passes its early exits, computes \<open>start = -18\<close> and \<open>end = 1\<close>, and the
  slice expression panics.
\<close>

theorem end_key_view_panics:
  "reachesSlice (run (initialModel ''0123456789ab'' None) [LogMsg (infoEntry ''hello''), KeyMsg ''end''])
   \<and> scrollOffset (run (initialModel ''0123456789ab'' None) [LogMsg (infoEntry ''hello''), KeyMsg ''end'']) = - 18
   \<and> viewRange (run (initialModel ''0123456789ab'' None) [LogMsg (infoEntry ''hello''), KeyMsg ''end'']) = (- 18, 1)
   \<and> viewSlice (run (initialModel ''0123456789ab'' None) [LogMsg (infoEntry ''hello''), KeyMsg ''end''])
       = Inl SliceBoundsOutOfRange"
  by (simp add: view_defs)

text \<open>
  The window is out of bounds on a second path as well: after a resize to fewer than
  3 rows the end index is below the start.
\<close>

lemma small_terminal_view_panics:
  "viewRange (run (initialModel ''0123456789ab'' None)
       [LogMsg (infoEntry ''hello''), WindowSizeMsg 80 2]) = (0, - 1)
   \<and> viewSlice (run (initialModel ''0123456789ab'' None)
       [LogMsg (infoEntry ''hello''), WindowSizeMsg 80 2]) = Inl SliceBoundsOutOfRange"
  by (simp add: view_defs)

text \<open>
  C6 as stated fails: with 10 rows, 3 records and the filter off, after one key
  \<open>down\<close> the scroll offset is 1 and the window holds the last two records.
\<close>

theorem three_records_scrolled_once:
  "height (run (initialModel ''0123456789ab'' (Some (80, 10)))
       [LogMsg (infoEntry ''a''), LogMsg (infoEntry ''b''), LogMsg (infoEntry ''c''), KeyMsg ''down'']) = 10
   \<and> scrollOffset (run (initialModel ''0123456789ab'' (Some (80, 10)))
       [LogMsg (infoEntry ''a''), LogMsg (infoEntry ''b''), LogMsg (infoEntry ''c''), KeyMsg ''down'']) = 1
   \<and> viewSlice (run (initialModel ''0123456789ab'' (Some (80, 10)))
       [LogMsg (infoEntry ''a''), LogMsg (infoEntry ''b''), LogMsg (infoEntry ''c''), KeyMsg ''down''])
     = Inr [infoEntry ''b'', infoEntry ''c'']"
  by (simp add: view_defs)

text \<open>
  C6, amended: with 10 rows, 3 records and the filter off, the window for a scroll
  offset \<open>s \<ge> 0\<close> is the records from index \<open>min s 2\<close> on: all three at 0, the last two
  at 1, the last one from 2 on, where the start is clamped to the last index.
\<close>

theorem three_records_window:
  assumes "height m = 10" and "length (logEntries m) = 3" and "\<not> showErrorsOnly m"
    and "0 \<le> scrollOffset m"
  shows "viewSlice m = Inr (drop (min (nat (scrollOffset m)) 2) (logEntries m))"
proof -
  have vis: "visibleEntries m = logEntries m"
    using assms(3) by (simp add: visibleEntries_def)
  obtain a b c where es: "logEntries m = [a, b, c]"
    using assms(2) by (auto simp: length_Suc_conv numeral_3_eq_3)
  consider "scrollOffset m = 0" | "scrollOffset m = 1" | "scrollOffset m = 2" | "3 \<le> scrollOffset m"
    using assms(4) by linarith
  then show ?thesis
  proof cases
    case 1
    then show ?thesis using assms(1) vis es
      by (simp add: viewSlice_def viewRange_def sliceEntries_def)
  next
    case 2
    then show ?thesis using assms(1) vis es
      by (simp add: viewSlice_def viewRange_def sliceEntries_def)
  next
    case 3
    then show ?thesis using assms(1) vis es
      by (simp add: viewSlice_def viewRange_def sliceEntries_def)
  next
    case 4
    then have "min (nat (scrollOffset m)) 2 = 2" by linarith
    with 4 show ?thesis using assms(1) vis es
      by (simp add: viewSlice_def viewRange_def sliceEntries_def)
  qed
qed

theorem three_records_window_witness:
  "height (run (initialModel ''0123456789ab'' (Some (80, 10)))
       [LogMsg (infoEntry ''a''), LogMsg (infoEntry ''b''), LogMsg (infoEntry ''c''),
        KeyMsg ''pagedown'']) = 10
   \<and> length (logEntries (run (initialModel ''0123456789ab'' (Some (80, 10)))
       [LogMsg (infoEntry ''a''), LogMsg (infoEntry ''b''), LogMsg (infoEntry ''c''),
        KeyMsg ''pagedown''])) = 3
   \<and> \<not> showErrorsOnly (run (initialModel ''0123456789ab'' (Some (80, 10)))
       [LogMsg (infoEntry ''a''), LogMsg (infoEntry ''b''), LogMsg (infoEntry ''c''),
        KeyMsg ''pagedown''])
   \<and> 0 \<le> scrollOffset (run (initialModel ''0123456789ab'' (Some (80, 10)))
       [LogMsg (infoEntry ''a''), LogMsg (infoEntry ''b''), LogMsg (infoEntry ''c''),
        KeyMsg ''pagedown''])
   \<and> viewSlice (run (initialModel ''0123456789ab'' (Some (80, 10)))
       [LogMsg (infoEntry ''a''), LogMsg (infoEntry ''b''), LogMsg (infoEntry ''c''),
        KeyMsg ''pagedown'']) = Inr [infoEntry ''c'']"
proof -
  let ?m = "run (initialModel ''0123456789ab'' (Some (80, 10)))
       [LogMsg (infoEntry ''a''), LogMsg (infoEntry ''b''), LogMsg (infoEntry ''c''),
        KeyMsg ''pagedown'']"
  have h: "height ?m = 10" by (simp add: view_defs)
  have n: "length (logEntries ?m) = 3" by (simp add: view_defs)
  have f: "\<not> showErrorsOnly ?m" by (simp add: view_defs)
  have s: "0 \<le> scrollOffset ?m" by (simp add: view_defs)
  have "scrollOffset ?m = 10" by (simp add: view_defs)
  moreover have "logEntries ?m = [infoEntry ''a'', infoEntry ''b'', infoEntry ''c'']"
    by (simp add: initialModel_def updateKey_def)
  ultimately show ?thesis
    using h n f s three_records_window [OF h n f s] by simp
qed

section \<open>The stream pump on a read error\<close>

lemma scanLoop_not_done:
  "(\<And>j. j < length ls \<Longrightarrow> \<not> dn (i + j)) \<Longrightarrow>
   scanLoop unmarshal dn i ls
     = (map (\<lambda>line. Send (LogMsg (parseLogLine unmarshal line))) ls, Inr (i + length ls))"
proof (induction ls arbitrary: i)
  case Nil
  then show ?case by simp
next
  case (Cons l ls)
  have here: "\<not> dn i" using Cons.prems [of 0] by simp
  have later: "\<And>j. j < length ls \<Longrightarrow> \<not> dn (Suc i + j)"
    using Cons.prems [of "Suc j" for j] by simp
  show ?case using here Cons.IH [OF later] by simp
qed

text \<open>
  C7: when the client, the inspection and the log stream are set up, the context is not
  seen as done during the loop and the scanner stops with an error, the pump sends one
  record per line, then prints and sends the line count, then sends one error message,
  and returns: the error message is the last effect, no record follows it, and the
  source is read once.
\<close>

theorem read_error_ends_stream:
  assumes "clientErr src = None" and "inspectErr src = None" and "logsErr src = None"
    and "scanErr src = Some e"
    and "\<forall>i < length (scanned src). \<not> ctxDone src i"
  shows "streamLogs unmarshal src
      = map (\<lambda>line. Send (LogMsg (parseLogLine unmarshal line))) (scanned src)
        @ [Print (''DEBUG: Read '' @ showNat (length (scanned src)) @ '' lines from Docker API'' @ [CHR 0x0A]),
           Send (InfoMsg (''Read '' @ showNat (length (scanned src)) @ '' lines from Docker API'')),
           Send (ErrorMsg (''error reading logs: '' @ e))]
    \<and> length (filter isErrorSend (streamLogs unmarshal src)) = 1
    \<and> last (streamLogs unmarshal src) = Send (ErrorMsg (''error reading logs: '' @ e))
    \<and> filter isLogSend (streamLogs unmarshal src)
      = map (\<lambda>line. Send (LogMsg (parseLogLine unmarshal line))) (scanned src)"
proof -
  have loop: "scanLoop unmarshal (ctxDone src) 0 (scanned src)
     = (map (\<lambda>line. Send (LogMsg (parseLogLine unmarshal line))) (scanned src),
        Inr (length (scanned src)))"
    using scanLoop_not_done [of "scanned src" "ctxDone src" 0 unmarshal] assms(5) by simp
  have eq: "streamLogs unmarshal src
      = map (\<lambda>line. Send (LogMsg (parseLogLine unmarshal line))) (scanned src)
        @ [Print (''DEBUG: Read '' @ showNat (length (scanned src)) @ '' lines from Docker API'' @ [CHR 0x0A]),
           Send (InfoMsg (''Read '' @ showNat (length (scanned src)) @ '' lines from Docker API'')),
           Send (ErrorMsg (''error reading logs: '' @ e))]"
    using assms(1-4) loop by (simp add: streamLogs_def)
  have no_err: "filter isErrorSend (map (\<lambda>line. Send (LogMsg (parseLogLine unmarshal line))) ls) = []" for ls
    by (induction ls) simp_all
  have all_log: "filter isLogSend (map (\<lambda>line. Send (LogMsg (parseLogLine unmarshal line))) ls)
      = map (\<lambda>line. Send (LogMsg (parseLogLine unmarshal line))) ls" for ls
    by (induction ls) simp_all
  show ?thesis
    unfolding eq by (simp add: no_err all_log)
qed

theorem read_error_ends_stream_witness:
  "clientErr \<lparr>clientErr = None, inspectErr = None, logsErr = None, scanned = [''a'', ''b''],
       scanErr = Some ''unexpected EOF'', ctxDone = never\<rparr> = None
   \<and> inspectErr \<lparr>clientErr = None, inspectErr = None, logsErr = None, scanned = [''a'', ''b''],
       scanErr = Some ''unexpected EOF'', ctxDone = never\<rparr> = None
   \<and> logsErr \<lparr>clientErr = None, inspectErr = None, logsErr = None, scanned = [''a'', ''b''],
       scanErr = Some ''unexpected EOF'', ctxDone = never\<rparr> = None
   \<and> streamLogs noJSON \<lparr>clientErr = None, inspectErr = None, logsErr = None,
       scanned = [''a'', ''b''], scanErr = Some ''unexpected EOF'', ctxDone = never\<rparr>
     = [Send (LogMsg (infoEntry ''a'')), Send (LogMsg (infoEntry ''b'')),
        Print (''DEBUG: Read 2 lines from Docker API'' @ [CHR 0x0A]),
        Send (InfoMsg ''Read 2 lines from Docker API''),
        Send (ErrorMsg ''error reading logs: unexpected EOF'')]"
proof -
  let ?src = "\<lparr>clientErr = None, inspectErr = None, logsErr = None, scanned = [''a'', ''b''],
       scanErr = Some ''unexpected EOF'', ctxDone = never\<rparr>"
  have c: "clientErr ?src = None" and i: "inspectErr ?src = None" and l: "logsErr ?src = None"
    and e: "scanErr ?src = Some ''unexpected EOF''"
    and d: "\<forall>i < length (scanned ?src). \<not> ctxDone ?src i"
    by (simp_all add: never_def)
  have a: "parseLogLine noJSON ''a'' = infoEntry ''a''"
    by (simp add: classifier_defs pattern_defs regex_defs infoEntry_def)
  have b: "parseLogLine noJSON ''b'' = infoEntry ''b''"
    by (simp add: classifier_defs pattern_defs regex_defs infoEntry_def)
  have two: "showNat (Suc (Suc 0)) = ''2''"
    by (simp add: showNat.simps digitChar_def char_eval numeral_2_eq_2 [symmetric])
  show ?thesis
    using read_error_ends_stream [OF c i l e d, of noJSON] a b two by simp
qed


section \<open>Level canonicalization\<close>













text \<open>Trimming at the end, and how it goes with trimming at the front.\<close>

lemma trim_end_snoc:
  "rev (dropWhile P (rev (t @ [x]))) = (if P x then rev (dropWhile P (rev t)) else t @ [x])"
  by simp














section \<open>What the matcher captures\<close>











section \<open>The message of a classified line\<close>



















section \<open>Word wrapping to a positive width\<close>







lemma JoinSp_Cons: "ys \<noteq> [] \<Longrightarrow> JoinSp (x # ys) = x @ '' '' @ JoinSp ys"
  by (cases ys) simp_all

lemma JoinSp_append:
  "xs \<noteq> [] \<Longrightarrow> ys \<noteq> [] \<Longrightarrow> JoinSp (xs @ ys) = JoinSp xs @ '' '' @ JoinSp ys"
proof (induction xs)
  case Nil
  then show ?case by simp
next
  case (Cons x xs)
  then show ?case by (cases "xs = []") (simp_all add: JoinSp_Cons)
qed







end
